theory Spec2Isabelle
  imports Main
begin

section \<open>Strings of the host language\<close>

text \<open>
  The module \<^verbatim>\<open>src/lib/error.ts\<close> works on JavaScript strings. They are modelled as
  HOL strings; the only characters the module inspects are the line feed and the ASCII
  hexadecimal digits.
\<close>

definition NL :: char where
  "NL = CHR 0x0A"

text \<open>\<^verbatim>\<open>Array.prototype.join\<close> on an array of strings.\<close>

fun join :: "string \<Rightarrow> string list \<Rightarrow> string" where
  "join sep [] = []"
| "join sep [x] = x"
| "join sep (x # y # ys) = x @ sep @ join sep (y # ys)"

text \<open>\<^verbatim>\<open>s.split('\n')[0]\<close>: the text before the first line feed (all of it when there is none).\<close>

definition firstLine :: "string \<Rightarrow> string" where
  "firstLine s = takeWhile (\<lambda>c. c \<noteq> NL) s"

text \<open>The character class \<^verbatim>\<open>[0-9a-fA-F]\<close>.\<close>

definition isHex :: "char \<Rightarrow> bool" where
  "isHex c = (c \<in> set ''0123456789abcdefABCDEF'')"

text \<open>The pattern \<^verbatim>\<open>[0-9a-fA-F]{40}\<close> matches at the head of a string.\<close>

definition tokenAt :: "string \<Rightarrow> bool" where
  "tokenAt s = (length (take 40 s) = 40 \<and> list_all isHex (take 40 s))"

definition placeholder :: string where
  "placeholder = ''<token hidden>''"

text \<open>
  \<^verbatim>\<open>s.replace(/[0-9a-fA-F]{40}/gm, '<token hidden>')\<close>: a scan from the left; at a match
  the forty characters are consumed and the placeholder is emitted, otherwise one character
  is copied. The replacement text has no \<^verbatim>\<open>$\<close> pattern, so it is inserted literally.
\<close>

fun hideTokens :: "string \<Rightarrow> string" where
  "hideTokens [] = []"
| "hideTokens (c # cs) =
     (if tokenAt (c # cs) then placeholder @ hideTokens (drop 39 cs)
      else c # hideTokens cs)"

text \<open>Some position of the string starts a match of the pattern.\<close>

fun hasToken :: "string \<Rightarrow> bool" where
  "hasToken [] = False"
| "hasToken (c # cs) = (tokenAt (c # cs) \<or> hasToken cs)"


section \<open>Data model\<close>

text \<open>Values a collaborator may throw.\<close>

datatype exn = TypeError string | ContextError string

text \<open>The current call, as \<^verbatim>\<open>getCurrentCall\<close> of \<^verbatim>\<open>@/lib/cli-args\<close> reports it.\<close>

record call =
  name :: string
  args :: string

text \<open>
  A JavaScript \<^verbatim>\<open>Error\<close>: \<^verbatim>\<open>name\<close>, \<^verbatim>\<open>message\<close> and the optional \<^verbatim>\<open>stack\<close>
  (\<^verbatim>\<open>stack?: string\<close> in the type of \<^verbatim>\<open>Error\<close>). \<^verbatim>\<open>extensible\<close> is
  \<^verbatim>\<open>Object.isExtensible\<close> of the object: false once it was frozen, sealed or closed
  to extension.
\<close>

record js_error =
  name :: string
  message :: string
  stack :: "string option"
  extensible :: bool

text \<open>The class \<^verbatim>\<open>AlfredError extends Error\<close> (lines 31-54).\<close>

record alfred_error = js_error +
  commonType :: string
  description :: string
  isSafe :: "bool option"
  title :: string

text \<open>A value of static type \<^verbatim>\<open>Error\<close>; \<^verbatim>\<open>instanceof AlfredError\<close> is the constructor test.\<close>

datatype err = Error js_error | AlfredError alfred_error

fun errName :: "err \<Rightarrow> string" where
  "errName (Error e) = js_error.name e"
| "errName (AlfredError a) = js_error.name a"

fun errMessage :: "err \<Rightarrow> string" where
  "errMessage (Error e) = message e"
| "errMessage (AlfredError a) = message a"

fun errStack :: "err \<Rightarrow> string option" where
  "errStack (Error e) = stack e"
| "errStack (AlfredError a) = stack a"

fun errExtensible :: "err \<Rightarrow> bool" where
  "errExtensible (Error e) = extensible e"
| "errExtensible (AlfredError a) = extensible a"

text \<open>\<^verbatim>\<open>ENV\<close> of \<^verbatim>\<open>@/lib/utils\<close>: the fields the module reads.\<close>

record env_meta =
  osx :: string
  nodejs :: string
  alfred :: string

record env_workflow =
  version :: string
  uid :: string

record env =
  meta :: env_meta
  workflow :: env_workflow

text \<open>The options object handed to \<^verbatim>\<open>newGithubIssueUrl\<close>.\<close>

record issue_options =
  user :: string
  repo :: string
  body :: string
  title :: "string option"

text \<open>A frame of the call stack, as the runtime prints it.\<close>

type_synonym frame = string

text \<open>
  The collaborators the module imports and does not define, and the runtime's rendering
  of a stack trace. Each is a parameter:
  \<^item> \<^verbatim>\<open>getCurrentCall()\<close> returns the call or throws (both call sites catch it);
  \<^item> \<^verbatim>\<open>cleanStack(stack, {pretty: true})\<close>, as interpolated into the report: the text it
    contributes, or the exception it throws. The source passes \<^verbatim>\<open>error.stack\<close>, which
    may be undefined, under a \<^verbatim>\<open>@ts-ignore\<close> (lines 88-90);
  \<^item> \<^verbatim>\<open>newGithubIssueUrl\<close> and \<^verbatim>\<open>createCall\<close> build strings from their arguments;
  \<^item> \<^verbatim>\<open>stackString n m fs\<close> is the text the runtime gives as \<^verbatim>\<open>stack\<close> of an object
    named \<^verbatim>\<open>n\<close> with message \<^verbatim>\<open>m\<close> for which it captured the frames \<^verbatim>\<open>fs\<close>.
\<close>

record world =
  getCurrentCall :: "exn + call"
  ENV :: env
  cleanStack :: "string option \<Rightarrow> exn + string"
  newGithubIssueUrl :: "issue_options \<Rightarrow> string"
  createCall :: "call \<Rightarrow> string"
  stackString :: "string \<Rightarrow> string \<Rightarrow> frame list \<Rightarrow> string"


section \<open>The diagnostic report (lines 63-96)\<close>

definition errorDetail :: "world \<Rightarrow> err \<Rightarrow> exn + string" where
  "errorDetail w error =
     (let callArgs = (case getCurrentCall w of Inr c \<Rightarrow> args c | Inl _ \<Rightarrow> ''<unknown>'');
          title = (case error of AlfredError a \<Rightarrow> alfred_error.title a | Error e \<Rightarrow> js_error.name e);
          description = errMessage error
      in case cleanStack w (errStack error) of
           Inl x \<Rightarrow> Inl x
         | Inr cleaned \<Rightarrow>
             Inr (hideTokens (join [NL]
               [''ALFRED WORKFLOW TODOIST'',
                ''----------------------------------------'',
                ''title: '' @ title,
                ''description: '' @ description,
                '''',
                ''os: macOS '' @ osx (meta (ENV w)),
                ''query: '' @ callArgs,
                ''node.js: '' @ nodejs (meta (ENV w)),
                ''alfred: '' @ alfred (meta (ENV w)),
                ''workflow: '' @ version (workflow (ENV w)),
                ''workflow-id: '' @ uid (workflow (ENV w)),
                NL # ''Stack: '' @ cleaned])))"


section \<open>The interactive-channel policy (lines 98-112)\<close>

definition isUserFacingMethod :: "world \<Rightarrow> bool" where
  "isUserFacingMethod w =
     (case getCurrentCall w of
        Inl _ \<Rightarrow> True
      | Inr c \<Rightarrow> call.name c = ''parse'' \<or> call.name c = ''read'' \<or> call.name c = ''readSettings'')"


section \<open>The issue link (lines 114-137)\<close>

definition issueBodyTemplate :: "string list" where
  "issueBodyTemplate =
     [''### Description'',
      [],
      ''<A clear and concise description of what the bug is.>'',
      [],
      ''### Steps to reproduce behavior'',
      [],
      ''<Please describe what you did here.>'',
      [],
      ''### Expected behavior'',
      [],
      ''<A clear and concise description of what you expected to happen.>'',
      [],
      ''### Error logs'',
      []]"

text \<open>
  The \<^verbatim>\<open>body\<close> option is evaluated before \<^verbatim>\<open>title\<close>, so an exception of the report
  builder leaves before the URL is built. \<^verbatim>\<open>error.stack?.split('\n')[0]\<close> is undefined
  when the stack is.
\<close>

definition createIssueLink :: "world \<Rightarrow> err \<Rightarrow> exn + string" where
  "createIssueLink w error =
     (case errorDetail w error of
        Inl x \<Rightarrow> Inl x
      | Inr report \<Rightarrow>
          Inr (newGithubIssueUrl w
            \<lparr>user = ''moranje'',
             repo = ''alfred-workflow-todoist'',
             body = join [NL] (issueBodyTemplate @ [report]),
             issue_options.title = map_option firstLine (errStack error)\<rparr>))"


section \<open>Output channels\<close>

text \<open>
  An \<^verbatim>\<open>Item\<close> of the workflow list and the options of \<^verbatim>\<open>notification\<close>; an absent
  field is \<open>None\<close>. \<^verbatim>\<open>copy\<close> is the field \<^verbatim>\<open>text.copy\<close>.
\<close>

record item =
  arg :: string
  title :: string
  subtitle :: string
  valid :: bool
  copy :: "string option"
  quicklookurl :: "string option"

record notification_options =
  subtitle :: string
  message :: string
  url :: string

text \<open>
  What leaves the module, in order: an error handed to the logger, a written list, a
  dispatched notification. The state is the content of the singleton \<^verbatim>\<open>workflowList\<close>
  and the effects so far.
\<close>

datatype effect = Logged err | Written "item list" | Notified notification_options

record state =
  workflowList :: "item list"
  effects :: "effect list"

definition logError :: "err \<Rightarrow> state \<Rightarrow> state" where
  "logError error s = s\<lparr>effects := effects s @ [Logged error]\<rparr>"

definition clear :: "state \<Rightarrow> state" where
  "clear s = s\<lparr>workflowList := []\<rparr>"

definition addItem :: "item \<Rightarrow> state \<Rightarrow> state" where
  "addItem i s = s\<lparr>workflowList := workflowList s @ [i]\<rparr>"

text \<open>\<^verbatim>\<open>workflowList.write()\<close>.\<close>

definition writeList :: "state \<Rightarrow> state" where
  "writeList s = s\<lparr>effects := effects s @ [Written (workflowList s)]\<rparr>"

definition notification :: "notification_options \<Rightarrow> state \<Rightarrow> state" where
  "notification n s = s\<lparr>effects := effects s @ [Notified n]\<rparr>"

definition projectUrl :: string where
  "projectUrl = ''https://github.com/moranje/alfred-workflow-todoist''"


section \<open>Presenters (lines 139-188)\<close>

definition listProblem :: "world \<Rightarrow> alfred_error \<Rightarrow> state \<Rightarrow> state" where
  "listProblem w error s =
     (if isUserFacingMethod w then
        writeList (addItem
          \<lparr>arg = createCall w \<lparr>call.name = ''openUrl'', args = projectUrl\<rparr>,
           item.title = alfred_error.title error,
           item.subtitle = js_error.message error,
           valid = True,
           copy = Some (js_error.name error @ '': '' @ js_error.message error),
           quicklookurl = None\<rparr>
          (clear s))
      else
        notification
          \<lparr>notification_options.subtitle = alfred_error.title error,
           notification_options.message = js_error.message error,
           url = projectUrl\<rparr> s)"

text \<open>
  In the interactive branch \<^verbatim>\<open>workflowList.clear()\<close> runs before the argument of
  \<^verbatim>\<open>addItem\<close> is evaluated, and \<^verbatim>\<open>createIssueLink(error)\<close> is evaluated twice. An
  exception leaves with the state reached so far.
\<close>

definition listBug :: "world \<Rightarrow> err \<Rightarrow> state \<Rightarrow> exn \<times> state + state" where
  "listBug w error s =
     (if isUserFacingMethod w then
        (let s1 = clear s in
         case createIssueLink w error of
           Inl x \<Rightarrow> Inl (x, s1)
         | Inr link \<Rightarrow>
             (case createIssueLink w error of
                Inl x \<Rightarrow> Inl (x, s1)
              | Inr preview \<Rightarrow>
                  Inr (writeList (addItem
                    \<lparr>arg = createCall w \<lparr>call.name = ''openUrl'', args = link\<rparr>,
                     item.title = ''Oops, something is not right'',
                     item.subtitle = ''Create a bug report'',
                     valid = True,
                     copy = None,
                     quicklookurl = Some preview\<rparr>
                    s1))))
      else
        (case createIssueLink w error of
           Inl x \<Rightarrow> Inl (x, s)
         | Inr link \<Rightarrow>
             Inr (notification
               \<lparr>notification_options.subtitle = ''Oops, something is not right'',
                notification_options.message = ''Click to create a bug report'',
                url = link\<rparr> s)))"


section \<open>The funnel (lines 190-211)\<close>

definition unrecoverableError :: "world \<Rightarrow> err \<Rightarrow> state \<Rightarrow> exn \<times> state + state" where
  "unrecoverableError w error s = listBug w error (logError error s)"

text \<open>\<^verbatim>\<open>error instanceof AlfredError && error.isSafe\<close>: an absent flag is falsy.\<close>

fun funnelError :: "world \<Rightarrow> err \<Rightarrow> state \<Rightarrow> exn \<times> state + state" where
  "funnelError w (AlfredError a) s =
     (if alfred_error.isSafe a = Some True
      then Inr (listProblem w a (logError (AlfredError a) s))
      else unrecoverableError w (AlfredError a) s)"
| "funnelError w (Error e) s = unrecoverableError w (Error e) s"


section \<open>Construction of an AlfredError (lines 25-54)\<close>

record AlfredErrorOptions =
  isSafe :: "bool option"
  title :: "string option"
  error :: "err option"

text \<open>\<^verbatim>\<open>options?.field\<close> and \<^verbatim>\<open>value ?? fallback\<close>.\<close>

definition optional :: "('a \<Rightarrow> 'b option) \<Rightarrow> 'a option \<Rightarrow> 'b option" where
  "optional field options = (case options of None \<Rightarrow> None | Some opts \<Rightarrow> field opts)"

definition nullish :: "'a option \<Rightarrow> 'a \<Rightarrow> 'a" where
  "nullish v fallback = (case v of None \<Rightarrow> fallback | Some x \<Rightarrow> x)"

text \<open>The process-wide \<^verbatim>\<open>Error.stackTraceLimit\<close>.\<close>

record runtime =
  stackTraceLimit :: nat

fun setStack :: "string \<Rightarrow> err \<Rightarrow> err" where
  "setStack st (Error e) = Error (e\<lparr>stack := Some st\<rparr>)"
| "setStack st (AlfredError a) = AlfredError (a\<lparr>stack := Some st\<rparr>)"

text \<open>
  \<^verbatim>\<open>new AlfredError(commonType, description, options)\<close> evaluated by code whose call stack
  is \<open>site\<close> (innermost frame first) in runtime \<open>rt\<close>. It returns the constructed error, the
  wrapped cause as the construction leaves it (the constructor keeps no reference to it)
  and the runtime, or it throws.
  \<^item> \<^verbatim>\<open>super(description)\<close> sets the message and captures the frames of the site under
    the limit then in force; the runtime leaves the frames of the constructor out.
  \<^item> \<^verbatim>\<open>options?.title ?? d\<close> and \<^verbatim>\<open>options?.isSafe ?? false\<close> default on undefined only;
    \<^verbatim>\<open>if (options?.error?.name)\<close> holds for a non-empty name.
  \<^item> \<^verbatim>\<open>Error.stackTraceLimit = 50\<close>, then \<^verbatim>\<open>Error.captureStackTrace(options?.error ?? this,
    AlfredError)\<close>: the target gets the frames of the site under the new limit, the
    constructor left out. On a target that is not extensible the runtime throws a
    TypeError; the new object is extensible.
  \<^item> The runtime renders the text of \<^verbatim>\<open>stack\<close> when it is first read, from the name and
    the message the object has then; the constructor is the last to write them.
\<close>

definition new_AlfredError ::
  "world \<Rightarrow> frame list \<Rightarrow> string \<Rightarrow> string \<Rightarrow> AlfredErrorOptions option \<Rightarrow> runtime
     \<Rightarrow> exn \<times> runtime + alfred_error \<times> err option \<times> runtime" where
  "new_AlfredError w site kind descr options rt =
     (let superFrames = take (stackTraceLimit rt) site;
          this = \<lparr>js_error.name = kind,
                  js_error.message = descr,
                  stack = None,
                  extensible = True,
                  commonType = kind,
                  description = descr,
                  alfred_error.isSafe = Some (nullish (optional AlfredErrorOptions.isSafe options) False),
                  alfred_error.title =
                    nullish (optional AlfredErrorOptions.title options)
                      ''Oops, this is not supposed to happen''\<rparr>;
          this = (case optional error options of
                    None \<Rightarrow> this
                  | Some c \<Rightarrow>
                      if errName c \<noteq> []
                      then this\<lparr>js_error.name := js_error.name this @ '' ('' @ errName c @ '')''\<rparr>
                      else this);
          rt = rt\<lparr>stackTraceLimit := 50\<rparr>
      in case optional error options of
           None \<Rightarrow>
             Inr (this\<lparr>stack := Some (stackString w (js_error.name this) (js_error.message this)
                                        (take (stackTraceLimit rt) site))\<rparr>,
                  None, rt)
         | Some c \<Rightarrow>
             if errExtensible c
             then Inr (this\<lparr>stack := Some (stackString w (js_error.name this)
                                             (js_error.message this) superFrames)\<rparr>,
                       Some (setStack (stackString w (errName c) (errMessage c)
                                         (take (stackTraceLimit rt) site)) c),
                       rt)
             else Inl (TypeError ''Cannot define property stack, object is not extensible'', rt))"


section \<open>The claims in the specification's words\<close>

text \<open>The error is an \<^verbatim>\<open>AlfredError\<close> whose \<^verbatim>\<open>isSafe\<close> is true.\<close>

fun isSafeError :: "err \<Rightarrow> bool" where
  "isSafeError (AlfredError a) = (alfred_error.isSafe a = Some True)"
| "isSafeError (Error e) = False"

text \<open>
  The presentation of a safe error: one list with one item in an interactive context, one
  notification otherwise (specification, 4.6).
\<close>

definition problemShaped :: "world \<Rightarrow> alfred_error \<Rightarrow> effect" where
  "problemShaped w a =
     (if isUserFacingMethod w then
        Written [\<lparr>arg = createCall w \<lparr>call.name = ''openUrl'', args = projectUrl\<rparr>,
                  item.title = alfred_error.title a,
                  item.subtitle = js_error.message a,
                  valid = True,
                  copy = Some (js_error.name a @ '': '' @ js_error.message a),
                  quicklookurl = None\<rparr>]
      else
        Notified \<lparr>notification_options.subtitle = alfred_error.title a,
                  notification_options.message = js_error.message a,
                  url = projectUrl\<rparr>)"

text \<open>The selectable item of a bug report: action and preview are the issue link.\<close>

definition bugItem :: "world \<Rightarrow> string \<Rightarrow> item" where
  "bugItem w link =
     \<lparr>arg = createCall w \<lparr>call.name = ''openUrl'', args = link\<rparr>,
      item.title = ''Oops, something is not right'',
      item.subtitle = ''Create a bug report'',
      valid = True,
      copy = None,
      quicklookurl = Some link\<rparr>"

text \<open>The notification of a bug report, with the message the source gives it.\<close>

definition bugNotification :: "string \<Rightarrow> notification_options" where
  "bugNotification link =
     \<lparr>notification_options.subtitle = ''Oops, something is not right'',
      notification_options.message = ''Click to create a bug report'',
      url = link\<rparr>"

definition bugShaped :: "world \<Rightarrow> string \<Rightarrow> effect" where
  "bugShaped w link =
     (if isUserFacingMethod w then Written [bugItem w link] else Notified (bugNotification link))"

text \<open>
  The lines of the diagnostic report as the specification lists them (4.4 and 6): thirteen
  lines, the fifth and the twelfth blank.
\<close>

definition reportLines :: "world \<Rightarrow> err \<Rightarrow> string \<Rightarrow> string list" where
  "reportLines w e cleaned =
     [''ALFRED WORKFLOW TODOIST'',
      ''----------------------------------------'',
      ''title: '' @ (case e of AlfredError a \<Rightarrow> alfred_error.title a | Error x \<Rightarrow> js_error.name x),
      ''description: '' @ errMessage e,
      [],
      ''os: macOS '' @ osx (meta (ENV w)),
      ''query: '' @ (case getCurrentCall w of Inr c \<Rightarrow> args c | Inl _ \<Rightarrow> ''<unknown>''),
      ''node.js: '' @ nodejs (meta (ENV w)),
      ''alfred: '' @ alfred (meta (ENV w)),
      ''workflow: '' @ version (workflow (ENV w)),
      ''workflow-id: '' @ uid (workflow (ENV w)),
      [],
      ''Stack: '' @ cleaned]"

text \<open>
  The headers occur in the text one after the other, without overlap: the first header is
  looked for from the left, the next one after it.
\<close>

fun inOrder :: "string list \<Rightarrow> string \<Rightarrow> bool" where
  "inOrder [] s = True"
| "inOrder (h # hs) [] = (h = [] \<and> inOrder hs [])"
| "inOrder (h # hs) (c # cs) =
     (if take (length h) (c # cs) = h then inOrder hs (drop (length h) (c # cs))
      else inOrder (h # hs) cs)"

definition sectionHeaders :: "string list" where
  "sectionHeaders =
     [''### Description'', ''### Steps to reproduce behavior'', ''### Expected behavior'',
      ''### Error logs'']"

text \<open>The taxonomy kind an error carries, if it is an \<^verbatim>\<open>AlfredError\<close>.\<close>

fun errCommonType :: "err \<Rightarrow> string option" where
  "errCommonType (AlfredError a) = Some (commonType a)"
| "errCommonType (Error e) = None"

text \<open>
  The global replacement in the specification's words (section 6): reading from the left,
  every match of the pattern that does not overlap an earlier one is replaced by the
  placeholder, and nothing else changes. A match is the leftmost one when no match starts
  before it, that is, within the text before it and its first 39 characters.
\<close>

inductive tokensHidden :: "string \<Rightarrow> string \<Rightarrow> bool" where
  unchanged: "\<not> hasToken s \<Longrightarrow> tokensHidden s s"
| replaced: "\<not> hasToken (u @ take 39 t) \<Longrightarrow> length t = 40 \<Longrightarrow> list_all isHex t
     \<Longrightarrow> tokensHidden v v' \<Longrightarrow> tokensHidden (u @ t @ v) (u @ placeholder @ v')"

text \<open>The runtime in which a construction left, by return or by exception.\<close>

fun runtimeAfter :: "exn \<times> runtime + alfred_error \<times> err option \<times> runtime \<Rightarrow> runtime" where
  "runtimeAfter (Inl (x, rt)) = rt"
| "runtimeAfter (Inr (a, c, rt)) = rt"

text \<open>The state in which a call left, by return or by exception.\<close>

fun finalState :: "exn \<times> state + state \<Rightarrow> state" where
  "finalState (Inl (x, s)) = s"
| "finalState (Inr s) = s"


section \<open>Example inputs\<close>

definition exampleEnv :: env where
  "exampleEnv =
     \<lparr>meta = \<lparr>osx = ''13.4'', nodejs = ''v18.16.0'', alfred = ''5.1''\<rparr>,
      workflow = \<lparr>version = ''6.0.0'', uid = ''user.workflow.1''\<rparr>\<rparr>"

text \<open>
  A world for the examples. Its stack cleaner returns a defined stack as it is and throws on
  an undefined one: the library version the source is typed against declares
  \<^verbatim>\<open>cleanStack(stack: string, ...)\<close> (hence the \<^verbatim>\<open>@ts-ignore\<close>) and starts with
  \<^verbatim>\<open>stack.replace(...)\<close>, a TypeError on undefined.
\<close>

definition exampleWorld :: "exn + call \<Rightarrow> world" where
  "exampleWorld c =
     \<lparr>getCurrentCall = c,
      ENV = exampleEnv,
      cleanStack = (\<lambda>st. case st of
                            None \<Rightarrow> Inl (TypeError ''Cannot read properties of undefined'')
                          | Some t \<Rightarrow> Inr t),
      newGithubIssueUrl = (\<lambda>opts. ''https://github.com/'' @ user opts @ ''/'' @ repo opts
                             @ ''/issues/new?body='' @ body opts
                             @ (case issue_options.title opts of
                                  None \<Rightarrow> []
                                | Some t \<Rightarrow> ''&title='' @ t)),
      createCall = (\<lambda>c. call.name c @ '' '' @ args c),
      stackString = (\<lambda>n m fs. n @ '': '' @ m @ concat (map (\<lambda>f. NL # ''    at '' @ f) fs))\<rparr>"

definition interactiveWorld :: world where
  "interactiveWorld = exampleWorld (Inr \<lparr>call.name = ''parse'', args = ''list today''\<rparr>)"

definition backgroundWorld :: world where
  "backgroundWorld = exampleWorld (Inr \<lparr>call.name = ''fetchTasks'', args = ''today''\<rparr>)"

definition detachedWorld :: world where
  "detachedWorld = exampleWorld (Inl (ContextError ''no current call''))"

definition emptyState :: state where
  "emptyState = \<lparr>workflowList = [], effects = []\<rparr>"

definition plainError :: err where
  "plainError =
     Error \<lparr>js_error.name = ''Error'', js_error.message = ''boom'',
            stack = Some (''Error: boom'' @ [NL] @ ''    at main''), extensible = True\<rparr>"

definition tokenError :: err where
  "tokenError =
     Error \<lparr>js_error.name = ''Error'',
            js_error.message = ''deadbeefdeadbeefdeadbeefdeadbeefdeadbeef'',
            stack = Some ''Error: x'', extensible = True\<rparr>"

definition plainLink :: "world \<Rightarrow> string" where
  "plainLink w =
     newGithubIssueUrl w
       \<lparr>user = ''moranje'',
        repo = ''alfred-workflow-todoist'',
        body = join [NL] (issueBodyTemplate
                 @ [hideTokens (join [NL] (reportLines w plainError
                                   (''Error: boom'' @ [NL] @ ''    at main'')))]),
        issue_options.title = Some ''Error: boom''\<rparr>"

definition stacklessError :: err where
  "stacklessError =
     Error \<lparr>js_error.name = ''Error'', js_error.message = ''boom'', stack = None,
            extensible = True\<rparr>"

text \<open>\<^verbatim>\<open>Object.freeze(new TypeError('bad input'))\<close>.\<close>

definition frozenError :: err where
  "frozenError =
     Error \<lparr>js_error.name = ''TypeError'', js_error.message = ''bad input'',
            stack = Some (''TypeError: bad input'' @ [NL] @ ''    at parse''),
            extensible = False\<rparr>"

section \<open>Properties\<close>

subsection \<open>Hiding tokens\<close>

lemma take_all_iff:
  "(length (take n s) = n \<and> list_all P (take n s)) = (n \<le> length (takeWhile P s))"
proof (induction s arbitrary: n)
  case Nil
  then show ?case by auto
next
  case (Cons a s)
  show ?case
  proof (cases n)
    case 0
    then show ?thesis by simp
  next
    case (Suc m)
    then show ?thesis using Cons.IH [of m] by auto
  qed
qed

text \<open>A match at the head is a run of at least forty hexadecimal digits there.\<close>

lemma tokenAt_run: "tokenAt s = (40 \<le> length (takeWhile isHex s))"
  unfolding tokenAt_def by (rule take_all_iff)

text \<open>\<open>hasToken\<close> is: some substring of length forty consists of hexadecimal digits.\<close>

lemma hasToken_iff:
  "hasToken s = (\<exists>u t v. s = u @ t @ v \<and> length t = 40 \<and> list_all isHex t)"
proof (induction s)
  case Nil
  then show ?case by auto
next
  case (Cons c cs)
  show ?case
  proof
    assume "hasToken (c # cs)"
    then consider "tokenAt (c # cs)" | "hasToken cs" by auto
    then show "\<exists>u t v. c # cs = u @ t @ v \<and> length t = 40 \<and> list_all isHex t"
    proof cases
      case 1
      then have "c # cs = [] @ take 40 (c # cs) @ drop 40 (c # cs)
          \<and> length (take 40 (c # cs)) = 40 \<and> list_all isHex (take 40 (c # cs))"
        by (simp add: tokenAt_def)
      then show ?thesis by blast
    next
      case 2
      then obtain u t v where "cs = u @ t @ v" "length t = 40" "list_all isHex t"
        using Cons by auto
      then have "c # cs = (c # u) @ t @ v \<and> length t = 40 \<and> list_all isHex t" by simp
      then show ?thesis by blast
    qed
  next
    assume "\<exists>u t v. c # cs = u @ t @ v \<and> length t = 40 \<and> list_all isHex t"
    then obtain u t v where h: "c # cs = u @ t @ v" "length t = 40" "list_all isHex t" by auto
    show "hasToken (c # cs)"
    proof (cases u)
      case Nil
      with h have eq: "c # cs = t @ v" by simp
      from h have "take 40 (t @ v) = t" by simp
      with eq have "take 40 (c # cs) = t" by simp
      with h have "tokenAt (c # cs)" by (simp only: tokenAt_def simp_thms)
      then show ?thesis by simp
    next
      case rest: (Cons a u')
      with h have "cs = u' @ t @ v" by simp
      with h Cons.IH have "hasToken cs" by blast
      then show ?thesis by simp
    qed
  qed
qed

lemma hasToken_intro: "length t = 40 \<Longrightarrow> list_all isHex t \<Longrightarrow> hasToken (u @ t @ v)"
  using hasToken_iff by blast

text \<open>The scan never lengthens the run of hexadecimal digits at the head.\<close>

lemma run_hideTokens:
  "length (takeWhile isHex (hideTokens s)) \<le> length (takeWhile isHex s)"
proof (induction s rule: hideTokens.induct)
  case 1
  then show ?case by simp
next
  case (2 c cs)
  show ?case
  proof (cases "tokenAt (c # cs)")
    case True
    then show ?thesis by (simp add: placeholder_def isHex_def)
  next
    case False
    then show ?thesis using 2 by simp
  qed
qed

text \<open>No match starts inside the placeholder: it is shorter than forty and ends in \<^verbatim>\<open>>\<close>.\<close>

lemma hasToken_placeholder: "hasToken (placeholder @ t) = hasToken t"
  by (simp add: placeholder_def tokenAt_run isHex_def)

lemma no_token_hideTokens: "\<not> hasToken (hideTokens s)"
proof (induction s rule: hideTokens.induct)
  case 1
  then show ?case by simp
next
  case (2 c cs)
  show ?case
  proof (cases "tokenAt (c # cs)")
    case True
    then show ?thesis using 2 by (simp add: hasToken_placeholder)
  next
    case False
    have "\<not> tokenAt (c # hideTokens cs)"
    proof (cases "isHex c")
      case True
      with False have "length (takeWhile isHex cs) < 39" by (simp add: tokenAt_run)
      with run_hideTokens [of cs] True show ?thesis by (simp add: tokenAt_run)
    next
      case False
      then show ?thesis by (simp add: tokenAt_run)
    qed
    with False 2 show ?thesis by simp
  qed
qed

lemma hideTokens_id: "\<not> hasToken s \<Longrightarrow> hideTokens s = s"
  by (induction s) auto

text \<open>A match at the head depends on the first forty characters only.\<close>

lemma tokenAt_append: "40 \<le> length a \<Longrightarrow> tokenAt (a @ b) = tokenAt a"
  by (simp add: tokenAt_def)

lemma short_no_token: "length s < 40 \<Longrightarrow> \<not> hasToken s"
  by (induction s) (auto simp: tokenAt_def)

text \<open>A text with a match has a leftmost one.\<close>

lemma first_token:
  "hasToken s \<Longrightarrow>
     \<exists>u t v. s = u @ t @ v \<and> length t = 40 \<and> list_all isHex t \<and> \<not> hasToken (u @ take 39 t)"
proof (induction s)
  case Nil
  then show ?case by simp
next
  case (Cons c cs)
  show ?case
  proof (cases "tokenAt (c # cs)")
    case True
    let ?t = "take 40 (c # cs)"
    from True have t: "length ?t = 40" "list_all isHex ?t" by (simp_all add: tokenAt_def)
    have "\<not> hasToken (take 39 ?t)" by (rule short_no_token) simp
    then have "\<not> hasToken ([] @ take 39 ?t)" by (simp only: append_Nil not_False_eq_True)
    moreover have "c # cs = [] @ ?t @ drop 40 (c # cs)" by simp
    ultimately show ?thesis using t by blast
  next
    case False
    with Cons.prems have "hasToken cs" by simp
    with Cons.IH obtain u t v where
      h: "cs = u @ t @ v" "length t = 40" "list_all isHex t" "\<not> hasToken (u @ take 39 t)"
      by blast
    have split: "c # cs = (c # u @ take 39 t) @ (drop 39 t @ v)"
      using h(1) by (simp add: append_take_drop_id)
    from h(2) have "40 \<le> length (c # u @ take 39 t)" by simp
    then have "tokenAt ((c # u @ take 39 t) @ (drop 39 t @ v)) = tokenAt (c # u @ take 39 t)"
      by (rule tokenAt_append)
    then have "tokenAt (c # cs) = tokenAt (c # u @ take 39 t)"
      by (simp only: split)
    with False have "\<not> tokenAt (c # u @ take 39 t)" by (simp only: simp_thms)
    with h(4) have "\<not> hasToken ((c # u) @ take 39 t)" by simp
    moreover from h(1) have "c # cs = (c # u) @ t @ v" by simp
    ultimately show ?thesis using h(2,3) by blast
  qed
qed

text \<open>The scan copies the text before the leftmost match and replaces the match.\<close>

lemma hideTokens_first:
  "\<not> hasToken (u @ take 39 t) \<Longrightarrow> length t = 40 \<Longrightarrow> list_all isHex t \<Longrightarrow>
     hideTokens (u @ t @ v) = u @ placeholder @ hideTokens v"
proof (induction u)
  case Nil
  from Nil(2) obtain c cs where t: "t = c # cs" by (cases t) auto
  with Nil(2) have l: "length cs = 39" by simp
  from Nil(2,3) have "tokenAt (t @ v)" by (simp add: tokenAt_def)
  with t l show ?case by simp
next
  case (Cons a u)
  from Cons.prems(1) have n: "\<not> tokenAt (a # u @ take 39 t)" and r: "\<not> hasToken (u @ take 39 t)"
    by simp_all
  have split: "a # u @ t @ v = (a # u @ take 39 t) @ (drop 39 t @ v)"
    by (simp add: append_take_drop_id)
  from Cons.prems(2) have "40 \<le> length (a # u @ take 39 t)" by simp
  then have "tokenAt ((a # u @ take 39 t) @ (drop 39 t @ v)) = tokenAt (a # u @ take 39 t)"
    by (rule tokenAt_append)
  then have "tokenAt (a # u @ t @ v) = tokenAt (a # u @ take 39 t)"
    by (simp only: split)
  with n have "\<not> tokenAt (a # u @ t @ v)" by (simp only: simp_thms)
  with Cons.IH [OF r Cons.prems(2,3)] show ?case by simp
qed

lemma tokensHidden_hideTokens: "tokensHidden s (hideTokens s)"
proof (induction "length s" arbitrary: s rule: less_induct)
  case less
  show ?case
  proof (cases "hasToken s")
    case False
    then show ?thesis by (simp add: hideTokens_id tokensHidden.unchanged)
  next
    case True
    then obtain u t v where
      h: "s = u @ t @ v" "length t = 40" "list_all isHex t" "\<not> hasToken (u @ take 39 t)"
      using first_token by blast
    then have "length v < length s" by simp
    then have "tokensHidden v (hideTokens v)" by (rule less)
    with h have "tokensHidden (u @ t @ v) (u @ placeholder @ hideTokens v)"
      by (simp add: tokensHidden.replaced)
    with h show ?thesis by (simp add: hideTokens_first)
  qed
qed

text \<open>The relation determines the result: it is the function the source applies.\<close>

lemma tokensHidden_unique: "tokensHidden s r \<Longrightarrow> r = hideTokens s"
  by (induction rule: tokensHidden.induct) (simp_all add: hideTokens_id hideTokens_first)

text \<open>The template of the issue body ends in a blank line and holds no run itself.\<close>

lemma hasToken_issue_body:
  "hasToken (join [NL] (issueBodyTemplate @ [report])) = hasToken report"
  by (simp add: issueBodyTemplate_def tokenAt_run isHex_def NL_def)

subsection \<open>The report\<close>

lemma errorDetail_lines:
  "errorDetail w e =
     (case cleanStack w (errStack e) of
        Inl x \<Rightarrow> Inl x
      | Inr cleaned \<Rightarrow> Inr (hideTokens (join [NL] (reportLines w e cleaned))))"
  by (simp add: errorDetail_def reportLines_def split: sum.splits)

lemma errorDetail_raises: "(errorDetail w e = Inl x) = (cleanStack w (errStack e) = Inl x)"
  by (simp add: errorDetail_lines split: sum.splits)

text \<open>
  C2. The report the builder returns is the assembled lines with every match of the token
  pattern replaced by the placeholder, from the left and without overlap, in one pass over
  the fully assembled text. It contains no run of forty hexadecimal digits, so a second
  pass would change nothing, and the issue body built around it contains no such run
  either.
\<close>

theorem errorDetail_no_token:
  "errorDetail w e = Inr report \<Longrightarrow>
     (\<exists>cleaned. cleanStack w (errStack e) = Inr cleaned
        \<and> tokensHidden (join [NL] (reportLines w e cleaned)) report
        \<and> report = hideTokens (join [NL] (reportLines w e cleaned)))
     \<and> \<not> hasToken report \<and> hideTokens report = report
     \<and> \<not> hasToken (join [NL] (issueBodyTemplate @ [report]))"
proof -
  assume r: "errorDetail w e = Inr report"
  then obtain cleaned where c: "cleanStack w (errStack e) = Inr cleaned"
    and h: "report = hideTokens (join [NL] (reportLines w e cleaned))"
    by (auto simp: errorDetail_lines split: sum.splits)
  from h have t: "tokensHidden (join [NL] (reportLines w e cleaned)) report"
    by (simp add: tokensHidden_hideTokens)
  from h have n: "\<not> hasToken report" by (simp add: no_token_hideTokens)
  then have "hideTokens report = report \<and> \<not> hasToken (join [NL] (issueBodyTemplate @ [report]))"
    by (simp add: hideTokens_id hasToken_issue_body)
  with c h t n show ?thesis by blast
qed

theorem errorDetail_no_token_witness:
  "errorDetail detachedWorld tokenError =
     Inr (''ALFRED WORKFLOW TODOIST'' @ [NL]
       @ ''----------------------------------------'' @ [NL]
       @ ''title: Error'' @ [NL]
       @ ''description: <token hidden>'' @ [NL]
       @ [NL]
       @ ''os: macOS 13.4'' @ [NL]
       @ ''query: <unknown>'' @ [NL]
       @ ''node.js: v18.16.0'' @ [NL]
       @ ''alfred: 5.1'' @ [NL]
       @ ''workflow: 6.0.0'' @ [NL]
       @ ''workflow-id: user.workflow.1'' @ [NL]
       @ [NL]
       @ ''Stack: Error: x'')
   \<and> \<not> hasToken (''ALFRED WORKFLOW TODOIST'' @ [NL]
       @ ''----------------------------------------'' @ [NL]
       @ ''title: Error'' @ [NL]
       @ ''description: <token hidden>'' @ [NL]
       @ [NL]
       @ ''os: macOS 13.4'' @ [NL]
       @ ''query: <unknown>'' @ [NL]
       @ ''node.js: v18.16.0'' @ [NL]
       @ ''alfred: 5.1'' @ [NL]
       @ ''workflow: 6.0.0'' @ [NL]
       @ ''workflow-id: user.workflow.1'' @ [NL]
       @ [NL]
       @ ''Stack: Error: x'')"
proof -
  have r: "errorDetail detachedWorld tokenError =
     Inr (''ALFRED WORKFLOW TODOIST'' @ [NL]
       @ ''----------------------------------------'' @ [NL]
       @ ''title: Error'' @ [NL]
       @ ''description: <token hidden>'' @ [NL]
       @ [NL]
       @ ''os: macOS 13.4'' @ [NL]
       @ ''query: <unknown>'' @ [NL]
       @ ''node.js: v18.16.0'' @ [NL]
       @ ''alfred: 5.1'' @ [NL]
       @ ''workflow: 6.0.0'' @ [NL]
       @ ''workflow-id: user.workflow.1'' @ [NL]
       @ [NL]
       @ ''Stack: Error: x'')"
    by (simp add: errorDetail_lines detachedWorld_def exampleWorld_def tokenError_def
        reportLines_def exampleEnv_def tokenAt_run isHex_def placeholder_def NL_def)
  from errorDetail_no_token [OF r] r show ?thesis by (simp only: simp_thms)
qed

text \<open>
  C4, as stated, fails: a message of forty hexadecimal digits does not appear in the
  description line of the report, although the stack cleaner returns.
\<close>

theorem errorDetail_format_counterexample:
  "cleanStack detachedWorld (errStack tokenError) = Inr ''Error: x''
   \<and> errorDetail detachedWorld tokenError
       \<noteq> Inr (join [NL] (reportLines detachedWorld tokenError ''Error: x''))"
proof -
  let ?X = "join [NL] (reportLines detachedWorld tokenError ''Error: x'')"
  have c: "cleanStack detachedWorld (errStack tokenError) = Inr ''Error: x''"
    by (simp add: detachedWorld_def exampleWorld_def tokenError_def)
  have "?X = take 91 ?X @ ''deadbeefdeadbeefdeadbeefdeadbeefdeadbeef'' @ drop 131 ?X"
    by (simp add: reportLines_def tokenError_def)
  moreover have "hasToken (take 91 ?X @ ''deadbeefdeadbeefdeadbeefdeadbeefdeadbeef'' @ drop 131 ?X)"
    by (rule hasToken_intro) (simp_all add: isHex_def)
  ultimately have "hasToken ?X" by simp
  moreover have "\<not> hasToken (hideTokens ?X)" by (rule no_token_hideTokens)
  ultimately have "hideTokens ?X \<noteq> ?X" by auto
  moreover have "errorDetail detachedWorld tokenError = Inr (hideTokens ?X)"
    by (simp add: errorDetail_lines c)
  ultimately show ?thesis using c by simp
qed

text \<open>
  C4, amended. Whenever the stack cleaner returns, the report is the thirteen lines of the
  specification, joined by line feeds, with every token hidden; it is exactly these lines
  when they hold no run of forty hexadecimal digits. The title is \<^verbatim>\<open>error.title\<close> for an
  \<^verbatim>\<open>AlfredError\<close> and \<^verbatim>\<open>error.name\<close> otherwise, the query is \<^verbatim>\<open><unknown>\<close> when
  resolving the call throws.
\<close>

theorem errorDetail_format:
  "cleanStack w (errStack e) = Inr cleaned \<Longrightarrow>
     errorDetail w e = Inr (hideTokens (join [NL] (reportLines w e cleaned)))
     \<and> (\<not> hasToken (join [NL] (reportLines w e cleaned)) \<longrightarrow>
          errorDetail w e = Inr (join [NL] (reportLines w e cleaned)))"
  by (simp add: errorDetail_lines hideTokens_id)

theorem errorDetail_format_witness:
  "cleanStack interactiveWorld (errStack plainError) = Inr (''Error: boom'' @ [NL] @ ''    at main'')
   \<and> \<not> hasToken (join [NL] (reportLines interactiveWorld plainError
                                (''Error: boom'' @ [NL] @ ''    at main'')))
   \<and> errorDetail interactiveWorld plainError =
       Inr (join [NL]
         [''ALFRED WORKFLOW TODOIST'',
          ''----------------------------------------'',
          ''title: Error'',
          ''description: boom'',
          [],
          ''os: macOS 13.4'',
          ''query: list today'',
          ''node.js: v18.16.0'',
          ''alfred: 5.1'',
          ''workflow: 6.0.0'',
          ''workflow-id: user.workflow.1'',
          [],
          ''Stack: Error: boom'',
          ''    at main''])"
proof -
  have c: "cleanStack interactiveWorld (errStack plainError)
             = Inr (''Error: boom'' @ [NL] @ ''    at main'')"
    by (simp add: interactiveWorld_def exampleWorld_def plainError_def)
  have n: "\<not> hasToken (join [NL] (reportLines interactiveWorld plainError
                                (''Error: boom'' @ [NL] @ ''    at main'')))"
    by (simp add: reportLines_def interactiveWorld_def exampleWorld_def plainError_def
        exampleEnv_def tokenAt_run isHex_def NL_def)
  from errorDetail_format [OF c] n
  have "errorDetail interactiveWorld plainError =
          Inr (join [NL] (reportLines interactiveWorld plainError
                           (''Error: boom'' @ [NL] @ ''    at main'')))"
    by blast
  then show ?thesis using c n
    by (simp add: reportLines_def interactiveWorld_def exampleWorld_def plainError_def
        exampleEnv_def)
qed

subsection \<open>The channel policy\<close>

text \<open>
  C3. \<^verbatim>\<open>isUserFacingMethod()\<close> is true exactly when the resolved call name is one of
  \<^verbatim>\<open>parse\<close>, \<^verbatim>\<open>read\<close>, \<^verbatim>\<open>readSettings\<close>, and it is true whenever resolving the call throws.
\<close>

theorem isUserFacingMethod_whitelist:
  "isUserFacingMethod (w\<lparr>getCurrentCall := Inr c\<rparr>)
     = (call.name c \<in> {''parse'', ''read'', ''readSettings''})
   \<and> isUserFacingMethod (w\<lparr>getCurrentCall := Inl x\<rparr>) = True"
  by (simp add: isUserFacingMethod_def)

subsection \<open>The issue link\<close>

text \<open>\<open>firstLine\<close> is the text up to the first line feed.\<close>

lemma firstLine_spec:
  "NL \<notin> set (firstLine s) \<and> (s = firstLine s \<or> (\<exists>rest. s = firstLine s @ NL # rest))"
proof -
  have "NL \<notin> set (firstLine s)"
    unfolding firstLine_def by (induction s) auto
  moreover have "s = firstLine s \<or> (\<exists>rest. s = firstLine s @ NL # rest)"
    unfolding firstLine_def by (induction s) auto
  ultimately show ?thesis by simp
qed

lemma createIssueLink_raises:
  "(createIssueLink w e = Inl x) = (cleanStack w (errStack e) = Inl x)"
  by (simp add: createIssueLink_def errorDetail_lines split: sum.splits)

lemma inOrder_issue_body:
  "inOrder sectionHeaders (join [NL] (issueBodyTemplate @ [report]))"
  by (simp add: sectionHeaders_def issueBodyTemplate_def NL_def)

text \<open>
  \<^verbatim>\<open>createIssueLink\<close> reads the error and the collaborators and has no state. When the
  report builder returns, the link is what \<^verbatim>\<open>newGithubIssueUrl\<close> makes of the fixed
  repository coordinate, the first line of \<^verbatim>\<open>error.stack\<close> as title (none for an undefined
  stack), and a body that holds the four section headers in order and ends with the
  \<^verbatim>\<open>Error logs\<close> header, a blank line and the report.
\<close>

lemma createIssueLink_options:
  "errorDetail w e = Inr report \<Longrightarrow>
     (\<exists>pre.
        createIssueLink w e =
          Inr (newGithubIssueUrl w
                 \<lparr>user = ''moranje'',
                  repo = ''alfred-workflow-todoist'',
                  body = pre @ ''### Error logs'' @ [NL, NL] @ report,
                  issue_options.title = map_option firstLine (errStack e)\<rparr>)
        \<and> inOrder sectionHeaders (pre @ ''### Error logs'' @ [NL, NL] @ report))"
proof -
  assume r: "errorDetail w e = Inr report"
  let ?pre = "join [NL] (take 12 issueBodyTemplate) @ [NL]"
  have b: "join [NL] (issueBodyTemplate @ [report]) = ?pre @ ''### Error logs'' @ [NL, NL] @ report"
    by (simp add: issueBodyTemplate_def)
  have "createIssueLink w e =
          Inr (newGithubIssueUrl w
                 \<lparr>user = ''moranje'',
                  repo = ''alfred-workflow-todoist'',
                  body = ?pre @ ''### Error logs'' @ [NL, NL] @ report,
                  issue_options.title = map_option firstLine (errStack e)\<rparr>)"
    using r b by (simp add: createIssueLink_def)
  moreover have "inOrder sectionHeaders (?pre @ ''### Error logs'' @ [NL, NL] @ report)"
    using inOrder_issue_body [of report] b by simp
  ultimately show ?thesis by blast
qed

lemma plainError_stack:
  "errStack plainError = Some (''Error: boom'' @ [NL] @ ''    at main'')"
  by (simp add: plainError_def)

lemma plainError_firstLine: "firstLine (''Error: boom'' @ [NL] @ ''    at main'') = ''Error: boom''"
  by (simp add: firstLine_def NL_def)

lemma plainError_report:
  "errorDetail w plainError =
     (case cleanStack w (Some (''Error: boom'' @ [NL] @ ''    at main'')) of
        Inl x \<Rightarrow> Inl x
      | Inr cleaned \<Rightarrow> Inr (hideTokens (join [NL] (reportLines w plainError cleaned))))"
  by (simp only: errorDetail_lines plainError_stack)

lemma plainError_link:
  "cleanStack w (Some (''Error: boom'' @ [NL] @ ''    at main''))
     = Inr (''Error: boom'' @ [NL] @ ''    at main'')
   \<Longrightarrow> createIssueLink w plainError = Inr (plainLink w)"
  unfolding createIssueLink_def plainError_report plainLink_def plainError_stack
  by (simp only: sum.case option.map plainError_firstLine)

lemma exampleWorld_cleanStack: "cleanStack (exampleWorld c) (Some st) = Inr st"
  by (simp add: exampleWorld_def)

text \<open>
  C8. \<^verbatim>\<open>createIssueLink\<close> on an error without a stack, with a stack cleaner that throws
  on undefined: no link is returned, the TypeError of the report builder leaves the
  function. The title is guarded (\<^verbatim>\<open>error.stack?.split\<close>), the report is not.
\<close>

theorem createIssueLink_undefined_stack_raises:
  "createIssueLink detachedWorld stacklessError
     = Inl (TypeError ''Cannot read properties of undefined'')"
  by (simp add: createIssueLink_raises stacklessError_def detachedWorld_def exampleWorld_def)

subsection \<open>The presenters\<close>

lemma listBug_returns:
  "createIssueLink w e = Inr link \<Longrightarrow>
     listBug w e s =
       Inr (if isUserFacingMethod w
            then s\<lparr>workflowList := [bugItem w link],
                   effects := effects s @ [Written [bugItem w link]]\<rparr>
            else s\<lparr>effects := effects s @ [Notified (bugNotification link)]\<rparr>)"
  by (simp add: listBug_def bugItem_def bugNotification_def clear_def addItem_def
      writeList_def notification_def)

lemma listBug_raises:
  "createIssueLink w e = Inl x \<Longrightarrow>
     listBug w e s = Inl (x, if isUserFacingMethod w then s\<lparr>workflowList := []\<rparr> else s)"
  by (simp add: listBug_def clear_def)

lemma listProblem_effects: "effects (listProblem w a s) = effects s @ [problemShaped w a]"
  by (simp add: listProblem_def problemShaped_def clear_def addItem_def writeList_def
      notification_def)

text \<open>
  C7, as stated, fails: outside an interactive call the notification does not carry the
  copy of the list item. Its message is \<^verbatim>\<open>Click to create a bug report\<close>, the subtitle of
  the item is \<^verbatim>\<open>Create a bug report\<close>.
\<close>

theorem listBug_copy_counterexample:
  "isUserFacingMethod backgroundWorld = False
   \<and> listBug backgroundWorld plainError emptyState =
       Inr \<lparr>workflowList = [],
            effects = [Notified
              \<lparr>notification_options.subtitle = ''Oops, something is not right'',
               notification_options.message = ''Click to create a bug report'',
               url = plainLink backgroundWorld\<rparr>]\<rparr>
   \<and> ''Click to create a bug report'' \<noteq> ''Create a bug report''"
proof -
  have u: "isUserFacingMethod backgroundWorld = False"
    by (simp add: isUserFacingMethod_def backgroundWorld_def exampleWorld_def)
  have "createIssueLink backgroundWorld plainError = Inr (plainLink backgroundWorld)"
    by (rule plainError_link) (simp only: backgroundWorld_def exampleWorld_cleanStack)
  then show ?thesis
    using u by (simp add: listBug_returns bugNotification_def emptyState_def)
qed

text \<open>
  C7, amended. Whenever the issue link is built, \<^verbatim>\<open>listBug\<close> in an interactive call
  replaces the list by one valid item titled \<^verbatim>\<open>Oops, something is not right\<close>, with
  subtitle \<^verbatim>\<open>Create a bug report\<close>, whose argument is the \<^verbatim>\<open>openUrl\<close> call on the link
  and whose preview is the link, and writes the list; otherwise it sends one notification
  with subtitle \<^verbatim>\<open>Oops, something is not right\<close>, message
  \<^verbatim>\<open>Click to create a bug report\<close> and the link as url.
\<close>

theorem listBug_presentation:
  "createIssueLink w e = Inr link \<Longrightarrow>
     listBug w e s =
       Inr (if isUserFacingMethod w
            then s\<lparr>workflowList :=
                     [\<lparr>arg = createCall w \<lparr>call.name = ''openUrl'', args = link\<rparr>,
                       item.title = ''Oops, something is not right'',
                       item.subtitle = ''Create a bug report'',
                       valid = True,
                       copy = None,
                       quicklookurl = Some link\<rparr>],
                   effects := effects s @
                     [Written
                       [\<lparr>arg = createCall w \<lparr>call.name = ''openUrl'', args = link\<rparr>,
                         item.title = ''Oops, something is not right'',
                         item.subtitle = ''Create a bug report'',
                         valid = True,
                         copy = None,
                         quicklookurl = Some link\<rparr>]]\<rparr>
            else s\<lparr>effects := effects s @
                     [Notified
                       \<lparr>notification_options.subtitle = ''Oops, something is not right'',
                        notification_options.message = ''Click to create a bug report'',
                        url = link\<rparr>]\<rparr>)"
  by (simp add: listBug_returns bugItem_def bugNotification_def)

theorem listBug_presentation_witness:
  "createIssueLink interactiveWorld plainError = Inr (plainLink interactiveWorld)
   \<and> listBug interactiveWorld plainError
        \<lparr>workflowList = [bugItem interactiveWorld ''stale''], effects = []\<rparr> =
       Inr \<lparr>workflowList =
              [\<lparr>arg = ''openUrl '' @ plainLink interactiveWorld,
                item.title = ''Oops, something is not right'',
                item.subtitle = ''Create a bug report'',
                valid = True,
                copy = None,
                quicklookurl = Some (plainLink interactiveWorld)\<rparr>],
            effects =
              [Written
                [\<lparr>arg = ''openUrl '' @ plainLink interactiveWorld,
                  item.title = ''Oops, something is not right'',
                  item.subtitle = ''Create a bug report'',
                  valid = True,
                  copy = None,
                  quicklookurl = Some (plainLink interactiveWorld)\<rparr>]]\<rparr>"
proof -
  have l: "createIssueLink interactiveWorld plainError = Inr (plainLink interactiveWorld)"
    by (rule plainError_link) (simp only: interactiveWorld_def exampleWorld_cleanStack)
  have u: "isUserFacingMethod interactiveWorld"
    by (simp add: isUserFacingMethod_def interactiveWorld_def exampleWorld_def)
  have c: "createCall interactiveWorld \<lparr>call.name = ''openUrl'', args = plainLink interactiveWorld\<rparr>
             = ''openUrl '' @ plainLink interactiveWorld"
    by (simp add: interactiveWorld_def exampleWorld_def)
  from listBug_presentation [OF l, of "\<lparr>workflowList = [bugItem interactiveWorld ''stale''], effects = []\<rparr>"]
  show ?thesis using l u c by simp
qed

subsection \<open>The funnel\<close>

lemma funnelError_safe:
  "alfred_error.isSafe a = Some True \<Longrightarrow>
     funnelError w (AlfredError a) s = Inr (listProblem w a (logError (AlfredError a) s))"
  by simp

lemma funnelError_unsafe:
  "\<not> isSafeError e \<Longrightarrow> funnelError w e s = listBug w e (logError e s)"
  by (cases e) (simp_all add: unrecoverableError_def)

text \<open>
  The funnel has no handler of its own: it throws exactly when the error is not safe and
  the stack cleaner throws on \<^verbatim>\<open>error.stack\<close>, after the error was logged and before
  anything is presented.
\<close>

lemma funnelError_raises_iff:
  "(\<exists>s'. funnelError w e s = Inl (x, s'))
     = (\<not> isSafeError e \<and> cleanStack w (errStack e) = Inl x)"
proof (cases "isSafeError e")
  case True
  then show ?thesis by (cases e) simp_all
next
  case False
  show ?thesis
  proof (cases "createIssueLink w e")
    case (Inl y)
    with False show ?thesis
      using createIssueLink_raises [of w e y]
      by (auto simp: funnelError_unsafe listBug_raises)
  next
    case (Inr link)
    with False show ?thesis
      using createIssueLink_raises [of w e x]
      by (simp add: funnelError_unsafe listBug_returns)
  qed
qed

lemma funnelError_raises_effects:
  "funnelError w e s = Inl (x, s') \<Longrightarrow> effects s' = effects s @ [Logged e]"
proof -
  assume r: "funnelError w e s = Inl (x, s')"
  then have u: "\<not> isSafeError e" by (cases e) (auto split: if_splits)
  with r have l: "listBug w e (logError e s) = Inl (x, s')" by (simp add: funnelError_unsafe)
  show ?thesis
  proof (cases "createIssueLink w e")
    case (Inl y)
    with l show ?thesis by (auto simp: listBug_raises logError_def)
  next
    case (Inr link)
    with l show ?thesis by (simp add: listBug_returns)
  qed
qed

text \<open>
  A safe error (an \<^verbatim>\<open>AlfredError\<close> whose \<^verbatim>\<open>isSafe\<close> is true) is logged and presented
  once, as a problem; any other error whose issue link is built is logged and presented
  once, as a bug; in an interactive call and outside one. Nothing else is added to the
  effects.
\<close>

lemma funnelError_routes:
  "(isSafeError e \<longrightarrow>
      (\<exists>a s'. e = AlfredError a \<and> funnelError w e s = Inr s'
         \<and> effects s' = effects s @ [Logged e, problemShaped w a]))
   \<and> (\<not> isSafeError e \<longrightarrow> createIssueLink w e = Inr link \<longrightarrow>
      (\<exists>s'. funnelError w e s = Inr s'
         \<and> effects s' = effects s @ [Logged e, bugShaped w link]))"
proof (intro conjI impI)
  assume "isSafeError e"
  then obtain a where a: "e = AlfredError a" "alfred_error.isSafe a = Some True"
    by (cases e) simp_all
  then have "funnelError w e s = Inr (listProblem w a (logError e s))
      \<and> effects (listProblem w a (logError e s)) = effects s @ [Logged e, problemShaped w a]"
    by (simp add: listProblem_effects logError_def)
  with a show "\<exists>a s'. e = AlfredError a \<and> funnelError w e s = Inr s'
      \<and> effects s' = effects s @ [Logged e, problemShaped w a]"
    by blast
next
  assume u: "\<not> isSafeError e" and l: "createIssueLink w e = Inr link"
  then show "\<exists>s'. funnelError w e s = Inr s'
      \<and> effects s' = effects s @ [Logged e, bugShaped w link]"
    by (simp add: funnelError_unsafe listBug_returns bugShaped_def logError_def)
qed

text \<open>
  C1. The funnel on an error that is not safe and has no stack, in an interactive call,
  with a stack cleaner that throws on undefined: the error is logged and the list is
  cleared, then the TypeError leaves the funnel. Neither a list is written nor a
  notification sent: the error is presented in no shape at all.
\<close>

theorem funnelError_undefined_stack_not_presented:
  "isSafeError stacklessError = False
   \<and> funnelError interactiveWorld stacklessError
        \<lparr>workflowList = [bugItem interactiveWorld ''stale''], effects = []\<rparr>
       = Inl (TypeError ''Cannot read properties of undefined'',
              \<lparr>workflowList = [], effects = [Logged stacklessError]\<rparr>)"
proof -
  have "createIssueLink interactiveWorld stacklessError
          = Inl (TypeError ''Cannot read properties of undefined'')"
    by (simp add: createIssueLink_raises stacklessError_def interactiveWorld_def exampleWorld_def)
  moreover have u: "\<not> isSafeError stacklessError" by (simp add: stacklessError_def)
  moreover have "isUserFacingMethod interactiveWorld"
    by (simp add: isUserFacingMethod_def interactiveWorld_def exampleWorld_def)
  ultimately show ?thesis
    by (simp add: funnelError_unsafe listBug_raises logError_def)
qed

text \<open>
  C5. The funnel on an error without a stack, outside an interactive call, with a stack
  cleaner that throws on undefined: the error is logged, nothing is presented, and the
  TypeError leaves the funnel.
\<close>

theorem funnelError_undefined_stack_raises:
  "funnelError backgroundWorld stacklessError emptyState =
     Inl (TypeError ''Cannot read properties of undefined'',
          \<lparr>workflowList = [], effects = [Logged stacklessError]\<rparr>)"
proof -
  have "createIssueLink backgroundWorld stacklessError
          = Inl (TypeError ''Cannot read properties of undefined'')"
    by (simp add: createIssueLink_raises stacklessError_def backgroundWorld_def exampleWorld_def)
  moreover have "\<not> isSafeError stacklessError" by (simp add: stacklessError_def)
  moreover have "\<not> isUserFacingMethod backgroundWorld"
    by (simp add: isUserFacingMethod_def backgroundWorld_def exampleWorld_def)
  ultimately show ?thesis
    by (simp add: funnelError_unsafe listBug_raises logError_def emptyState_def)
qed

subsection \<open>Construction\<close>

lemma new_AlfredError_runtime:
  "runtimeAfter (new_AlfredError w site kind descr options rt) = rt\<lparr>stackTraceLimit := 50\<rparr>"
  by (simp add: new_AlfredError_def Let_def split: option.splits)

text \<open>
  C9, as stated, fails: construction can fail. With a frozen error as wrapped cause
  \<^verbatim>\<open>Error.captureStackTrace\<close> throws, after the limit was set.
\<close>

theorem new_AlfredError_counterexample:
  "new_AlfredError detachedWorld [''main''] ''External error'' ''wrapped''
     (Some \<lparr>AlfredErrorOptions.isSafe = None, AlfredErrorOptions.title = None,
            error = Some frozenError\<rparr>)
     \<lparr>stackTraceLimit = 10\<rparr>
   = Inl (TypeError ''Cannot define property stack, object is not extensible'',
          \<lparr>stackTraceLimit = 50\<rparr>)"
  by (simp add: new_AlfredError_def optional_def frozenError_def)

text \<open>
  C9, amended. Construction throws exactly when a wrapped cause is given that is not
  extensible. Otherwise it returns an error whose name is the kind, followed by the name of
  the wrapped cause in parentheses exactly when a cause with a non-empty name is given;
  whose message and description are the description; whose title is the option, or
  \<^verbatim>\<open>Oops, this is not supposed to happen\<close> when there is none; and whose \<^verbatim>\<open>isSafe\<close> is
  the option, or false when there is none. Without an options object all defaults apply.
\<close>

theorem new_AlfredError_fields:
  "(\<exists>a. new_AlfredError w site kind descr None rt = Inr (a, None, rt\<lparr>stackTraceLimit := 50\<rparr>)
       \<and> js_error.name a = kind
       \<and> js_error.message a = descr
       \<and> description a = descr
       \<and> alfred_error.title a = ''Oops, this is not supposed to happen''
       \<and> alfred_error.isSafe a = Some False)
   \<and> ((\<exists>x. c = Some x \<and> \<not> errExtensible x) \<longrightarrow>
        (\<exists>x. new_AlfredError w site kind descr
                (Some \<lparr>AlfredErrorOptions.isSafe = sf, AlfredErrorOptions.title = t, error = c\<rparr>) rt
              = Inl (x, rt\<lparr>stackTraceLimit := 50\<rparr>)))
   \<and> (\<not> (\<exists>x. c = Some x \<and> \<not> errExtensible x) \<longrightarrow>
        (\<exists>a c'. new_AlfredError w site kind descr
                   (Some \<lparr>AlfredErrorOptions.isSafe = sf, AlfredErrorOptions.title = t, error = c\<rparr>) rt
                 = Inr (a, c', rt\<lparr>stackTraceLimit := 50\<rparr>)
           \<and> js_error.name a =
               kind @ (case c of
                         None \<Rightarrow> []
                       | Some x \<Rightarrow> if errName x = [] then [] else '' ('' @ errName x @ '')'')
           \<and> (js_error.name a = kind) = (case c of None \<Rightarrow> True | Some x \<Rightarrow> errName x = [])
           \<and> js_error.message a = descr
           \<and> description a = descr
           \<and> alfred_error.title a =
               (case t of None \<Rightarrow> ''Oops, this is not supposed to happen'' | Some v \<Rightarrow> v)
           \<and> alfred_error.isSafe a = Some (case sf of None \<Rightarrow> False | Some b \<Rightarrow> b)))"
proof (intro conjI impI)
  show "\<exists>a. new_AlfredError w site kind descr None rt = Inr (a, None, rt\<lparr>stackTraceLimit := 50\<rparr>)
       \<and> js_error.name a = kind
       \<and> js_error.message a = descr
       \<and> description a = descr
       \<and> alfred_error.title a = ''Oops, this is not supposed to happen''
       \<and> alfred_error.isSafe a = Some False"
    by (simp add: new_AlfredError_def optional_def nullish_def)
next
  assume "\<exists>x. c = Some x \<and> \<not> errExtensible x"
  then show "\<exists>x. new_AlfredError w site kind descr
                (Some \<lparr>AlfredErrorOptions.isSafe = sf, AlfredErrorOptions.title = t, error = c\<rparr>) rt
              = Inl (x, rt\<lparr>stackTraceLimit := 50\<rparr>)"
    by (auto simp: new_AlfredError_def optional_def)
next
  assume ok: "\<not> (\<exists>x. c = Some x \<and> \<not> errExtensible x)"
  show "\<exists>a c'. new_AlfredError w site kind descr
                   (Some \<lparr>AlfredErrorOptions.isSafe = sf, AlfredErrorOptions.title = t, error = c\<rparr>) rt
                 = Inr (a, c', rt\<lparr>stackTraceLimit := 50\<rparr>)
           \<and> js_error.name a =
               kind @ (case c of
                         None \<Rightarrow> []
                       | Some x \<Rightarrow> if errName x = [] then [] else '' ('' @ errName x @ '')'')
           \<and> (js_error.name a = kind) = (case c of None \<Rightarrow> True | Some x \<Rightarrow> errName x = [])
           \<and> js_error.message a = descr
           \<and> description a = descr
           \<and> alfred_error.title a =
               (case t of None \<Rightarrow> ''Oops, this is not supposed to happen'' | Some v \<Rightarrow> v)
           \<and> alfred_error.isSafe a = Some (case sf of None \<Rightarrow> False | Some b \<Rightarrow> b)"
  proof (cases c)
    case None
    then show ?thesis by (simp add: new_AlfredError_def optional_def nullish_def)
  next
    case (Some x)
    with ok have "errExtensible x" by simp
    with Some show ?thesis by (simp add: new_AlfredError_def optional_def nullish_def)
  qed
qed

theorem new_AlfredError_fields_witness:
  "(\<exists>x. Some frozenError = Some x \<and> \<not> errExtensible x)
   \<and> (\<exists>x. new_AlfredError detachedWorld [''main''] ''External error'' ''wrapped''
              (Some \<lparr>AlfredErrorOptions.isSafe = None, AlfredErrorOptions.title = None,
                     error = Some frozenError\<rparr>) \<lparr>stackTraceLimit = 10\<rparr>
            = Inl (x, \<lparr>stackTraceLimit = 50\<rparr>))
   \<and> \<not> (\<exists>x. Some plainError = Some x \<and> \<not> errExtensible x)
   \<and> (\<exists>a c'. new_AlfredError detachedWorld [''main''] ''External error'' ''wrapped''
                 (Some \<lparr>AlfredErrorOptions.isSafe = Some True,
                        AlfredErrorOptions.title = Some ''Network down'',
                        error = Some plainError\<rparr>) \<lparr>stackTraceLimit = 10\<rparr>
               = Inr (a, c', \<lparr>stackTraceLimit = 50\<rparr>)
         \<and> js_error.name a = ''External error (Error)''
         \<and> js_error.message a = ''wrapped''
         \<and> alfred_error.title a = ''Network down''
         \<and> alfred_error.isSafe a = Some True)"
proof -
  have f: "\<exists>x. Some frozenError = Some x \<and> \<not> errExtensible x"
    by (simp add: frozenError_def)
  have p: "\<not> (\<exists>x. Some plainError = Some x \<and> \<not> errExtensible x)"
    by (simp add: plainError_def)
  have n: "errName plainError = ''Error''" by (simp add: plainError_def)
  from new_AlfredError_fields [where c = "Some frozenError" and w = detachedWorld
      and site = "[''main'']" and kind = "''External error''" and descr = "''wrapped''"
      and sf = None and t = None and rt = "\<lparr>stackTraceLimit = 10\<rparr>"] f
  have 1: "\<exists>x. new_AlfredError detachedWorld [''main''] ''External error'' ''wrapped''
              (Some \<lparr>AlfredErrorOptions.isSafe = None, AlfredErrorOptions.title = None,
                     error = Some frozenError\<rparr>) \<lparr>stackTraceLimit = 10\<rparr>
            = Inl (x, \<lparr>stackTraceLimit = 50\<rparr>)"
    by simp
  from new_AlfredError_fields [where c = "Some plainError" and w = detachedWorld
      and site = "[''main'']" and kind = "''External error''" and descr = "''wrapped''"
      and sf = "Some True" and t = "Some ''Network down''" and rt = "\<lparr>stackTraceLimit = 10\<rparr>"] p
  have 2: "\<exists>a c'. new_AlfredError detachedWorld [''main''] ''External error'' ''wrapped''
                 (Some \<lparr>AlfredErrorOptions.isSafe = Some True,
                        AlfredErrorOptions.title = Some ''Network down'',
                        error = Some plainError\<rparr>) \<lparr>stackTraceLimit = 10\<rparr>
               = Inr (a, c', \<lparr>stackTraceLimit = 50\<rparr>)
         \<and> js_error.name a = ''External error (Error)''
         \<and> js_error.message a = ''wrapped''
         \<and> alfred_error.title a = ''Network down''
         \<and> alfred_error.isSafe a = Some True"
    by (auto simp: n)
  from f p 1 2 show ?thesis by blast
qed

text \<open>
  C10. The constructed error carries the unsuffixed kind as \<^verbatim>\<open>commonType\<close>, whatever the
  options; wrapping an error in a new one leaves the kind of the wrapped error as it was;
  a construction that throws constructs nothing; and the funnel hands the error to the
  logger as it received it. No function of the module returns an error other than the
  constructor.
\<close>

theorem commonType_kept:
  "(case new_AlfredError w site kind descr options rt of
      Inr (a, c', rt') \<Rightarrow>
        errCommonType (AlfredError a) = Some kind
        \<and> map_option errCommonType c' = map_option errCommonType (optional error options)
    | Inl (x, rt') \<Rightarrow> (\<exists>c. optional error options = Some c \<and> \<not> errExtensible c))
   \<and> (\<exists>rest. effects (finalState (funnelError w' e s)) = effects s @ Logged e # rest)"
proof -
  have k: "\<And>st c. errCommonType (setStack st c) = errCommonType c"
  proof -
    fix st c show "errCommonType (setStack st c) = errCommonType c" by (cases c) simp_all
  qed
  have 1: "case new_AlfredError w site kind descr options rt of
      Inr (a, c', rt') \<Rightarrow>
        errCommonType (AlfredError a) = Some kind
        \<and> map_option errCommonType c' = map_option errCommonType (optional error options)
    | Inl (x, rt') \<Rightarrow> (\<exists>c. optional error options = Some c \<and> \<not> errExtensible c)"
    by (simp add: new_AlfredError_def Let_def k split: option.splits)
  have 3: "\<exists>rest. effects (finalState (funnelError w' e s)) = effects s @ Logged e # rest"
  proof (cases "funnelError w' e s")
    case (Inl p)
    obtain x s' where "p = (x, s')" by (cases p)
    with Inl funnelError_raises_effects [of w' e s x s'] show ?thesis by simp
  next
    case (Inr s')
    show ?thesis
    proof (cases "isSafeError e")
      case True
      then obtain a where "e = AlfredError a" "alfred_error.isSafe a = Some True"
        by (cases e) simp_all
      with Inr show ?thesis by (auto simp: listProblem_effects logError_def)
    next
      case False
      with Inr have l: "listBug w' e (logError e s) = Inr s'" by (simp add: funnelError_unsafe)
      show ?thesis
      proof (cases "createIssueLink w' e")
        case (Inl y)
        with l show ?thesis by (simp add: listBug_raises)
      next
        case link: (Inr link)
        with l Inr show ?thesis by (auto simp: listBug_returns logError_def)
      qed
    qed
  qed
  from 1 3 show ?thesis by blast
qed

text \<open>
  C6, as stated, fails: the limit is not set once at initialisation. A construction in a
  runtime whose limit is 10 is what sets it to 50.
\<close>

theorem stackTraceLimit_counterexample:
  "runtimeAfter (new_AlfredError detachedWorld [''main''] ''External error'' ''boom'' None
                   \<lparr>stackTraceLimit = 10\<rparr>)
     = \<lparr>stackTraceLimit = 50\<rparr>
   \<and> \<lparr>stackTraceLimit = 50\<rparr> \<noteq> \<lparr>stackTraceLimit = 10\<rparr>"
  by (simp add: new_AlfredError_runtime)

text \<open>
  C6, amended. Every construction that returns leaves on the constructed error a stack
  trace rooted at the construction site, not at the throw site of the wrapped cause: the
  innermost frames of the site, under the constructed error's own name and message. And
  every construction sets the limit to 50: the assignment is idempotent, a further
  construction leaves the runtime as it finds it, but it is made by each construction.
\<close>

theorem new_AlfredError_trace:
  "stackTraceLimit (runtimeAfter (new_AlfredError w site kind descr options rt)) = 50
   \<and> runtimeAfter (new_AlfredError w2 site2 kind2 descr2 options2
                     (runtimeAfter (new_AlfredError w site kind descr options rt)))
       = runtimeAfter (new_AlfredError w site kind descr options rt)
   \<and> (new_AlfredError w site kind descr options rt = Inr (a, c', rt') \<longrightarrow>
        stack a = Some (stackString w (js_error.name a) descr
                    (take (case options of
                             None \<Rightarrow> 50
                           | Some opts \<Rightarrow> (case error opts of
                                            None \<Rightarrow> 50
                                          | Some c \<Rightarrow> stackTraceLimit rt)) site)))"
proof (intro conjI impI)
  show "stackTraceLimit (runtimeAfter (new_AlfredError w site kind descr options rt)) = 50"
    by (simp add: new_AlfredError_runtime)
  show "runtimeAfter (new_AlfredError w2 site2 kind2 descr2 options2
                     (runtimeAfter (new_AlfredError w site kind descr options rt)))
       = runtimeAfter (new_AlfredError w site kind descr options rt)"
    by (simp add: new_AlfredError_runtime)
next
  assume "new_AlfredError w site kind descr options rt = Inr (a, c', rt')"
  then show "stack a = Some (stackString w (js_error.name a) descr
                    (take (case options of
                             None \<Rightarrow> 50
                           | Some opts \<Rightarrow> (case error opts of
                                            None \<Rightarrow> 50
                                          | Some c \<Rightarrow> stackTraceLimit rt)) site))"
    by (auto simp: new_AlfredError_def Let_def optional_def split: option.splits if_splits)
qed

theorem new_AlfredError_trace_witness:
  "new_AlfredError detachedWorld [''main'', ''caller''] ''External error'' ''wrapped''
      (Some \<lparr>AlfredErrorOptions.isSafe = None, AlfredErrorOptions.title = None,
             error = Some plainError\<rparr>)
      \<lparr>stackTraceLimit = 1\<rparr>
    = Inr (\<lparr>js_error.name = ''External error (Error)'',
            js_error.message = ''wrapped'',
            stack = Some (''External error (Error): wrapped'' @ [NL] @ ''    at main''),
            extensible = True,
            commonType = ''External error'',
            description = ''wrapped'',
            alfred_error.isSafe = Some False,
            alfred_error.title = ''Oops, this is not supposed to happen''\<rparr>,
           Some (Error \<lparr>js_error.name = ''Error'', js_error.message = ''boom'',
                        stack = Some (''Error: boom'' @ [NL] @ ''    at main'' @ [NL]
                                        @ ''    at caller''),
                        extensible = True\<rparr>),
           \<lparr>stackTraceLimit = 50\<rparr>)
   \<and> stackString detachedWorld ''External error (Error)'' ''wrapped'' (take 1 [''main'', ''caller''])
       = ''External error (Error): wrapped'' @ [NL] @ ''    at main''"
proof -
  let ?a = "\<lparr>js_error.name = ''External error (Error)'',
            js_error.message = ''wrapped'',
            stack = Some (''External error (Error): wrapped'' @ [NL] @ ''    at main''),
            extensible = True,
            commonType = ''External error'',
            description = ''wrapped'',
            alfred_error.isSafe = Some False,
            alfred_error.title = ''Oops, this is not supposed to happen''\<rparr>"
  let ?c = "Some (Error \<lparr>js_error.name = ''Error'', js_error.message = ''boom'',
                        stack = Some (''Error: boom'' @ [NL] @ ''    at main'' @ [NL]
                                        @ ''    at caller''),
                        extensible = True\<rparr>)"
  let ?o = "Some \<lparr>AlfredErrorOptions.isSafe = None, AlfredErrorOptions.title = None,
                   error = Some plainError\<rparr>"
  have r: "new_AlfredError detachedWorld [''main'', ''caller''] ''External error'' ''wrapped'' ?o
             \<lparr>stackTraceLimit = 1\<rparr> = Inr (?a, ?c, \<lparr>stackTraceLimit = 50\<rparr>)"
    by (simp add: new_AlfredError_def optional_def nullish_def plainError_def detachedWorld_def
        exampleWorld_def)
  from new_AlfredError_trace [where w = detachedWorld and site = "[''main'', ''caller'']"
      and kind = "''External error''" and descr = "''wrapped''" and options = ?o
      and rt = "\<lparr>stackTraceLimit = 1\<rparr>" and a = ?a and c' = ?c
      and rt' = "\<lparr>stackTraceLimit = 50\<rparr>"] r
  have "stack ?a = Some (stackString detachedWorld ''External error (Error)'' ''wrapped''
                           (take 1 [''main'', ''caller'']))"
    by simp
  then have "stackString detachedWorld ''External error (Error)'' ''wrapped''
               (take 1 [''main'', ''caller''])
             = ''External error (Error): wrapped'' @ [NL] @ ''    at main''"
    by simp
  with r show ?thesis by blast
qed

end
